theory Spec2Isabelle
  imports Main "HOL-Library.Word"
begin

section \<open>bfdb: a command line debugger for brainfuck\<close>

text \<open>
  The development follows the most complete revision of \<^verbatim>\<open>bfdb.c\<close> (the one with
  \<^verbatim>\<open>to_int\<close>, \<^verbatim>\<open>compile_error\<close>, \<^verbatim>\<open>dbg_next(int count)\<close> and the tape command).
  C structs are records, the fixed-size C arrays are lists whose length is the array
  size, \<^verbatim>\<open>unsigned short\<close> is \<open>16 word\<close> and \<^verbatim>\<open>unsigned int\<close> is \<open>32 word\<close>.
  The global variables \<^verbatim>\<open>program\<close>, \<^verbatim>\<open>loaded\<close> and \<^verbatim>\<open>runtime\<close> are the fields of one
  record that every debugger action takes and returns.
\<close>

subsection \<open>Capacities and the intermediate representation\<close>

definition PROGRAM_SIZE :: nat where
  "PROGRAM_SIZE = 4096"

definition STACK_SIZE :: nat where
  "STACK_SIZE = 512"

definition DATA_SIZE :: nat where
  "DATA_SIZE = 65535"

text \<open>The anonymous enum of operators, in the order of the source.\<close>

definition OP_END :: "16 word" where "OP_END = 0"
definition OP_INC :: "16 word" where "OP_INC = 1"
definition OP_DEC :: "16 word" where "OP_DEC = 2"
definition OP_ADD :: "16 word" where "OP_ADD = 3"
definition OP_SUB :: "16 word" where "OP_SUB = 4"
definition OP_OUT :: "16 word" where "OP_OUT = 5"
definition OP_IN :: "16 word" where "OP_IN = 6"
definition OP_JMP :: "16 word" where "OP_JMP = 7"
definition OP_RET :: "16 word" where "OP_RET = 8"

record instruction_t =
  operator :: "16 word"
  operand :: "16 word"

record program_t =
  instructions :: "instruction_t list"
  instr_count :: "16 word"
  stack :: "16 word list"
  esp :: "32 word"

text \<open>
  \<^verbatim>\<open>program_t program = { .instr_count = 0, .esp = 0 }\<close>: an object of static storage,
  so every member that has no initialiser is zero.
\<close>

definition program_init :: program_t where
  "program_init =
     \<lparr>instructions = replicate PROGRAM_SIZE \<lparr>operator = 0, operand = 0\<rparr>,
      instr_count = 0,
      stack = replicate STACK_SIZE 0,
      esp = 0\<rparr>"

text \<open>The two member assignments \<^verbatim>\<open>prog->instructions[i].operator = v\<close> and
  \<^verbatim>\<open>prog->instructions[i].operand = v\<close>.\<close>

definition set_operator :: "nat \<Rightarrow> 16 word \<Rightarrow> program_t \<Rightarrow> program_t" where
  "set_operator i v prog =
     prog\<lparr>instructions := (instructions prog)[i := (instructions prog ! i)\<lparr>operator := v\<rparr>]\<rparr>"

definition set_operand :: "nat \<Rightarrow> 16 word \<Rightarrow> program_t \<Rightarrow> program_t" where
  "set_operand i v prog =
     prog\<lparr>instructions := (instructions prog)[i := (instructions prog ! i)\<lparr>operand := v\<rparr>]\<rparr>"

subsection \<open>Compilation\<close>

text \<open>
  Every \<^verbatim>\<open>return false\<close> of \<^verbatim>\<open>compile\<close> is a constructor. Three of them are
  preceded by a call \<^verbatim>\<open>compile_error(line, col, ...)\<close>, whose two numbers the
  constructor carries; the fourth (\<^verbatim>\<open>prog->esp != 0\<close> after the loop) returns without
  any call of \<^verbatim>\<open>compile_error\<close>, so it carries none.
\<close>

datatype compile_error =
    LoopNestingOverflow int int
  | UnmatchedCloseBracket int int
  | ProgramTooLarge int int
  | UnmatchedOpenBracket

text \<open>
  The body of the \<^verbatim>\<open>switch (c)\<close>. The result is the error together with the program
  as the failing call leaves it (the program is a global that is written in place), or
  the updated program and the value of \<^verbatim>\<open>pc\<close> after the switch. The default case
  is \<^verbatim>\<open>pc--\<close> on an \<^verbatim>\<open>unsigned short\<close>, which wraps at 0.
\<close>

definition compile_char ::
  "char \<Rightarrow> program_t \<Rightarrow> int \<Rightarrow> int \<Rightarrow> 16 word
     \<Rightarrow> (compile_error \<times> program_t) + (program_t \<times> 16 word)" where
  "compile_char c prog line col pc =
     (if c = CHR ''>'' then Inr (set_operator (unat pc) OP_INC prog, pc)
      else if c = CHR ''<'' then Inr (set_operator (unat pc) OP_DEC prog, pc)
      else if c = CHR ''+'' then Inr (set_operator (unat pc) OP_ADD prog, pc)
      else if c = CHR ''-'' then Inr (set_operator (unat pc) OP_SUB prog, pc)
      else if c = CHR ''.'' then Inr (set_operator (unat pc) OP_OUT prog, pc)
      else if c = CHR '','' then Inr (set_operator (unat pc) OP_IN prog, pc)
      else if c = CHR ''['' then
        (let prog1 = set_operator (unat pc) OP_JMP prog in
         if unat (esp prog1) = STACK_SIZE
         then Inl (LoopNestingOverflow line col, prog1)
         else Inr (prog1\<lparr>stack := (stack prog1)[unat (esp prog1) := pc],
                          esp := esp prog1 + 1\<rparr>, pc))
      else if c = CHR '']'' then
        (if esp prog = 0
         then Inl (UnmatchedCloseBracket line col, prog)
         else
           (let prog1 = prog\<lparr>esp := esp prog - 1\<rparr>;
                jmp_pc = stack prog1 ! unat (esp prog1);
                prog2 = set_operator (unat pc) OP_RET prog1;
                prog3 = set_operand (unat pc) jmp_pc prog2;
                prog4 = set_operator (unat jmp_pc) pc prog3
            in Inr (prog4, pc)))
      else Inr (prog, pc - 1))"

text \<open>
  The \<^verbatim>\<open>while ((c = getc(fp)) != EOF && pc < PROGRAM_SIZE)\<close> loop over the characters
  of the file. It leaves with the program, the line, the column and \<^verbatim>\<open>pc\<close>, or with
  the error of a \<^verbatim>\<open>return false\<close> inside the switch.
\<close>

fun compile_loop ::
  "string \<Rightarrow> program_t \<Rightarrow> int \<Rightarrow> int \<Rightarrow> 16 word
     \<Rightarrow> (compile_error \<times> program_t) + (program_t \<times> int \<times> int \<times> 16 word)" where
  "compile_loop [] prog line col pc = Inr (prog, line, col, pc)"
| "compile_loop (c # fp) prog line col pc =
     (if \<not> unat pc < PROGRAM_SIZE then Inr (prog, line, col, pc)
      else
        (case compile_char c prog line col pc of
           Inl e \<Rightarrow> Inl e
         | Inr (prog', pc') \<Rightarrow>
             compile_loop fp prog'
               (if c = CHR 0x0A then line + 1 else line)
               (if c = CHR 0x0A then 1 else col + 1)
               (pc' + 1)))"

text \<open>
  \<^verbatim>\<open>bool compile(FILE *fp, program_t *prog)\<close>: \<open>Inr\<close> is \<^verbatim>\<open>return true\<close> with the
  program as compiled, \<open>Inl\<close> is \<^verbatim>\<open>return false\<close>. The pointer is always
  \<^verbatim>\<open>&program\<close>, so the null check never fires.
\<close>

definition compile :: "string \<Rightarrow> program_t \<Rightarrow> (compile_error \<times> program_t) + program_t" where
  "compile fp prog =
     (case compile_loop fp prog 1 1 0 of
        Inl e \<Rightarrow> Inl e
      | Inr (prog', line, col, pc) \<Rightarrow>
          if unat pc = PROGRAM_SIZE then Inl (ProgramTooLarge line col, prog')
          else if esp prog' \<noteq> 0 then Inl (UnmatchedOpenBracket, prog')
          else Inr ((set_operator (unat pc) OP_END prog')\<lparr>instr_count := pc + 1\<rparr>))"

subsection \<open>The debugger's state\<close>

record runtime_t =
  running :: bool
  data :: "16 word list"
  pc :: "16 word"
  ptr :: "32 word"

datatype runtime_error = PointerOverflow | PointerUnderflow

text \<open>
  What the debugger prints with \<^verbatim>\<open>fprintf\<close> (to \<^verbatim>\<open>stdout\<close> or \<^verbatim>\<open>stderr\<close>), one
  constructor per format string, with the numbers the format prints. The glyph that
  \<^verbatim>\<open>dbg_runtime_error\<close> prints beside the instruction index is left out.
\<close>

datatype message =
    InvalidNumericArgument
  | NegativeNotAllowed int
  | CompilationError compile_error
  | FileTakesOneArgument
  | NoFileSpecified
  | NotBeingRun
  | JumpTakesOneArgument
  | Reading string
  | CouldNotReadFrom string
  | NoSuchFile string
  | RuntimeError runtime_error int "32 word" "16 word"
  | ExitedWithError
  | ExitedNormally
  | CountNegative int
  | JumpNotInRange int int
  | PrintNotInRange int
  | Dataptr "32 word"
  | Cell int "16 word"
  | TapeWindow "(int \<times> 16 word \<times> bool) list"

text \<open>
  The globals \<^verbatim>\<open>program\<close>, \<^verbatim>\<open>loaded\<close> and \<^verbatim>\<open>runtime\<close>, and the process's streams:
  \<open>inbytes\<close> are the bytes \<^verbatim>\<open>getchar\<close> will read, \<open>outbytes\<close> the bytes written by
  \<^verbatim>\<open>putchar\<close>, \<open>msgs\<close> the debugger's own messages in the order printed.
\<close>

record bfdb_t =
  program :: program_t
  loaded :: bool
  runtime :: runtime_t
  inbytes :: "8 word list"
  outbytes :: "8 word list"
  msgs :: "message list"

definition runtime_init :: runtime_t where
  "runtime_init = \<lparr>running = False, data = replicate DATA_SIZE 0, pc = 0, ptr = 0\<rparr>"

definition bfdb_init :: "8 word list \<Rightarrow> bfdb_t" where
  "bfdb_init inp =
     \<lparr>program = program_init, loaded = False, runtime = runtime_init,
      inbytes = inp, outbytes = [], msgs = []\<rparr>"

definition say :: "message list \<Rightarrow> bfdb_t \<Rightarrow> bfdb_t" where
  "say ms s = s\<lparr>msgs := msgs s @ ms\<rparr>"

subsection \<open>Loading\<close>

text \<open>
  The messages of a failed compilation: \<^verbatim>\<open>compile_error\<close> is called on three of the
  four failing paths.
\<close>

fun compile_messages :: "compile_error \<Rightarrow> message list" where
  "compile_messages UnmatchedOpenBracket = []"
| "compile_messages e = [CompilationError e]"

text \<open>
  \<^verbatim>\<open>dbg_load\<close>. The file system is a parameter: \<open>fopen\<close> maps a file name to the
  file's characters, \<open>None\<close> when \<^verbatim>\<open>fopen\<close> returns \<^verbatim>\<open>NULL\<close>. The assignment
  \<^verbatim>\<open>loaded = compile(fp, &program)\<close> is only reached when the file was opened.
\<close>

definition dbg_load :: "(string \<Rightarrow> string option) \<Rightarrow> string \<Rightarrow> bfdb_t \<Rightarrow> bfdb_t" where
  "dbg_load fopen file_name s =
     (let s1 = s\<lparr>runtime := (runtime s)\<lparr>running := False\<rparr>\<rparr> in
      case fopen file_name of
        Some fp \<Rightarrow>
          (let s2 = say [Reading file_name] s1 in
           case compile fp (program s2) of
             Inr prog' \<Rightarrow> s2\<lparr>program := prog', loaded := True\<rparr>
           | Inl (e, prog') \<Rightarrow>
               say (compile_messages e @ [CouldNotReadFrom file_name])
                 (s2\<lparr>program := prog', loaded := False\<rparr>))
      | None \<Rightarrow> say [NoSuchFile file_name] s1)"

subsection \<open>Running and interpreting\<close>

definition dbg_runtime_error :: "runtime_error \<Rightarrow> bfdb_t \<Rightarrow> bfdb_t" where
  "dbg_runtime_error kind s =
     (say [RuntimeError kind (uint (pc (runtime s)) + 1) (ptr (runtime s))
             (data (runtime s) ! unat (ptr (runtime s))),
           ExitedWithError] s)
       \<lparr>runtime := (runtime s)\<lparr>running := False\<rparr>\<rparr>"

definition dbg_run :: "bfdb_t \<Rightarrow> bfdb_t" where
  "dbg_run s =
     s\<lparr>runtime := (runtime s)\<lparr>data := replicate DATA_SIZE 0, pc := 0, ptr := 0,
                               running := True\<rparr>\<rparr>"

text \<open>The current cell \<^verbatim>\<open>runtime->data[runtime->ptr]\<close>, read and written.\<close>

definition cell :: "bfdb_t \<Rightarrow> 16 word" where
  "cell s = data (runtime s) ! unat (ptr (runtime s))"

definition set_cell :: "16 word \<Rightarrow> bfdb_t \<Rightarrow> bfdb_t" where
  "set_cell v s =
     s\<lparr>runtime := (runtime s)\<lparr>data := (data (runtime s))[unat (ptr (runtime s)) := v]\<rparr>\<rparr>"

definition set_pc :: "16 word \<Rightarrow> bfdb_t \<Rightarrow> bfdb_t" where
  "set_pc v s = s\<lparr>runtime := (runtime s)\<lparr>pc := v\<rparr>\<rparr>"

definition set_ptr :: "32 word \<Rightarrow> bfdb_t \<Rightarrow> bfdb_t" where
  "set_ptr v s = s\<lparr>runtime := (runtime s)\<lparr>ptr := v\<rparr>\<rparr>"

text \<open>
  The \<^verbatim>\<open>switch (instruction.operator)\<close> of \<^verbatim>\<open>dbg_interpret\<close>: \<open>Inl\<close> when a case
  returns \<^verbatim>\<open>true\<close> after \<^verbatim>\<open>dbg_runtime_error\<close>, \<open>Inr\<close> when the switch is left by
  \<^verbatim>\<open>break\<close> (or no case matches). \<^verbatim>\<open>runtime->ptr + 1 < DATA_SIZE\<close> is a comparison
  of \<^verbatim>\<open>unsigned int\<close>. \<^verbatim>\<open>getchar\<close> returns \<^verbatim>\<open>EOF\<close> (-1) at the end of the input,
  which the assignment to the \<^verbatim>\<open>unsigned short\<close> cell turns into 65535; \<^verbatim>\<open>putchar\<close>
  writes its argument converted to \<^verbatim>\<open>unsigned char\<close>.
\<close>

definition dbg_switch :: "instruction_t \<Rightarrow> bfdb_t \<Rightarrow> bfdb_t + bfdb_t" where
  "dbg_switch instruction s =
     (if operator instruction = OP_INC then
        (if unat (ptr (runtime s) + 1) < DATA_SIZE
         then Inr (set_ptr (ptr (runtime s) + 1) s)
         else Inl (dbg_runtime_error PointerOverflow s))
      else if operator instruction = OP_DEC then
        (if ptr (runtime s) > 0
         then Inr (set_ptr (ptr (runtime s) - 1) s)
         else Inl (dbg_runtime_error PointerUnderflow s))
      else if operator instruction = OP_ADD then Inr (set_cell (cell s + 1) s)
      else if operator instruction = OP_SUB then Inr (set_cell (cell s - 1) s)
      else if operator instruction = OP_OUT then
        Inr (s\<lparr>outbytes := outbytes s @ [ucast (cell s)]\<rparr>)
      else if operator instruction = OP_IN then
        (case inbytes s of
           [] \<Rightarrow> Inr (set_cell 0xFFFF s)
         | b # bs \<Rightarrow> Inr (set_cell (ucast b) (s\<lparr>inbytes := bs\<rparr>)))
      else if operator instruction = OP_JMP then
        (if cell s = 0 then Inr (set_pc (operand instruction) s) else Inr s)
      else if operator instruction = OP_RET then
        (if cell s \<noteq> 0 then Inr (set_pc (operand instruction) s) else Inr s)
      else Inr s)"

text \<open>
  \<^verbatim>\<open>dbg_interpret\<close>; its runtime argument is always \<^verbatim>\<open>&runtime\<close>. The result is the
  returned \<^verbatim>\<open>bool\<close> (whether the runtime was terminated by \<^verbatim>\<open>OP_END\<close> or by a
  runtime error) and the state.
\<close>

definition dbg_interpret :: "instruction_t \<Rightarrow> bfdb_t \<Rightarrow> bool \<times> bfdb_t" where
  "dbg_interpret instruction s =
     (if operator instruction = OP_END
      then (True, (say [ExitedNormally] s)\<lparr>runtime := (runtime s)\<lparr>running := False\<rparr>\<rparr>)
      else
        (case dbg_switch instruction s of
           Inl s' \<Rightarrow> (True, s')
         | Inr s' \<Rightarrow> (False, set_pc (pc (runtime s') + 1) s')))"

text \<open>
  \<^verbatim>\<open>program.instructions[runtime.pc]\<close>: the array has \<^verbatim>\<open>PROGRAM_SIZE\<close> elements and
  \<^verbatim>\<open>pc\<close> is an \<^verbatim>\<open>unsigned short\<close>, so the read can lie outside the array, where C
  leaves the behaviour undefined.
\<close>

datatype undefined_behaviour = InstructionReadOutOfBounds

definition fetch :: "bfdb_t \<Rightarrow> undefined_behaviour + instruction_t" where
  "fetch s =
     (if unat (pc (runtime s)) < PROGRAM_SIZE
      then Inr (instructions (program s) ! unat (pc (runtime s)))
      else Inl InstructionReadOutOfBounds)"

text \<open>One pass through the body of the loop of \<^verbatim>\<open>dbg_next\<close>.\<close>

definition dbg_step :: "bfdb_t \<Rightarrow> undefined_behaviour + (bool \<times> bfdb_t)" where
  "dbg_step s = (case fetch s of Inl u \<Rightarrow> Inl u | Inr i \<Rightarrow> Inr (dbg_interpret i s))"

text \<open>
  The loop \<^verbatim>\<open>for (int i = 0; i < count; ++i)\<close> with its \<^verbatim>\<open>break\<close>, by recursion on
  the number of iterations that remain; \<^verbatim>\<open>ret\<close> is \<^verbatim>\<open>false\<close> when the loop runs out.
\<close>

fun dbg_next_loop :: "nat \<Rightarrow> bfdb_t \<Rightarrow> undefined_behaviour + (bool \<times> bfdb_t)" where
  "dbg_next_loop 0 s = Inr (False, s)"
| "dbg_next_loop (Suc n) s =
     (case dbg_step s of
        Inl u \<Rightarrow> Inl u
      | Inr (ret, s') \<Rightarrow> if ret then Inr (True, s') else dbg_next_loop n s')"

definition dbg_next :: "int \<Rightarrow> bfdb_t \<Rightarrow> undefined_behaviour + (bool \<times> bfdb_t)" where
  "dbg_next count s =
     (if count < 0 then Inr (False, say [CountNegative count] s)
      else dbg_next_loop (nat count) s)"

definition dbg_jump :: "int \<Rightarrow> bfdb_t \<Rightarrow> bfdb_t" where
  "dbg_jump index s =
     (if index < 1 \<or> index > uint (instr_count (program s))
      then say [JumpNotInRange index (uint (instr_count (program s)))] s
      else set_pc (word_of_int (index - 1)) s)"

subsection \<open>Inspection\<close>

definition dbg_print_dataptr :: "bfdb_t \<Rightarrow> bfdb_t" where
  "dbg_print_dataptr s = say [Dataptr (ptr (runtime s))] s"

definition dbg_print :: "int \<Rightarrow> bfdb_t \<Rightarrow> bfdb_t" where
  "dbg_print index s =
     (if index < 0 \<or> index \<ge> int DATA_SIZE
      then say [PrintNotInRange index] s
      else say [Cell index (data (runtime s) ! nat index)] s)"

text \<open>
  \<^verbatim>\<open>dbg_print_tape\<close>: \<^verbatim>\<open>int ptr = runtime.ptr + dptr\<close> adds in \<^verbatim>\<open>unsigned int\<close> and
  converts the sum to \<^verbatim>\<open>int\<close>; the cells outside the tape are skipped.
\<close>

definition dbg_print_tape :: "bfdb_t \<Rightarrow> bfdb_t" where
  "dbg_print_tape s =
     say [TapeWindow
            (map (\<lambda>dptr. let p = sint (ptr (runtime s) + word_of_int dptr)
                         in (p, data (runtime s) ! nat p, dptr = 0))
               (filter (\<lambda>dptr. let p = sint (ptr (runtime s) + word_of_int dptr)
                               in \<not> (p < 0 \<or> p \<ge> int DATA_SIZE))
                  [-4, -3, -2, -1, 0, 1, 2, 3, 4]))] s"

subsection \<open>Commands\<close>

text \<open>
  A command's argument is the second word of the line, if there is one. Of a numeric
  argument the model keeps what \<^verbatim>\<open>strtol\<close> makes of it: \<open>None\<close> when nothing was
  converted (\<^verbatim>\<open>endptr == str\<close>), otherwise the result as cast to \<^verbatim>\<open>int\<close>.
\<close>

type_synonym numeric_arg = "int option"

definition to_int :: "numeric_arg \<Rightarrow> bool \<Rightarrow> bfdb_t \<Rightarrow> int option \<times> bfdb_t" where
  "to_int str allow_neg s =
     (case str of
        None \<Rightarrow> (None, say [InvalidNumericArgument] s)
      | Some result \<Rightarrow>
          if \<not> allow_neg \<and> result < 0 then (None, say [NegativeNotAllowed result] s)
          else (Some result, s))"

definition cmd_file :: "(string \<Rightarrow> string option) \<Rightarrow> string option \<Rightarrow> bfdb_t \<Rightarrow> bfdb_t" where
  "cmd_file fopen file_name s =
     (case file_name of
        Some name \<Rightarrow> dbg_load fopen name s
      | None \<Rightarrow> say [FileTakesOneArgument] s)"

definition cmd_run :: "bfdb_t \<Rightarrow> bfdb_t" where
  "cmd_run s = (if loaded s then dbg_run s else say [NoFileSpecified] s)"

definition cmd_next :: "numeric_arg option \<Rightarrow> bfdb_t \<Rightarrow> undefined_behaviour + bfdb_t" where
  "cmd_next count s =
     (if running (runtime s) then
        (case count of
           Some str \<Rightarrow>
             (case to_int str False s of
                (Some c, s') \<Rightarrow> map_sum id snd (dbg_next c s')
              | (None, s') \<Rightarrow> Inr s')
         | None \<Rightarrow> map_sum id snd (dbg_next 1 s))
      else Inr (say [NotBeingRun] s))"

definition cmd_jump :: "numeric_arg option \<Rightarrow> bfdb_t \<Rightarrow> bfdb_t" where
  "cmd_jump index s =
     (if running (runtime s) then
        (case index of
           Some str \<Rightarrow>
             (case to_int str False s of
                (Some i, s') \<Rightarrow> dbg_jump i s'
              | (None, s') \<Rightarrow> s')
         | None \<Rightarrow> say [JumpTakesOneArgument] s)
      else say [NotBeingRun] s)"

text \<open>
  \<^verbatim>\<open>while (!dbg_next(1)) {}\<close> need not terminate: the result is \<open>None\<close> when it
  does not.
\<close>

partial_function (option) continue_loop :: "bfdb_t \<Rightarrow> (undefined_behaviour + bfdb_t) option" where
  "continue_loop s =
     (case dbg_next 1 s of
        Inl u \<Rightarrow> Some (Inl u)
      | Inr (ret, s') \<Rightarrow> if ret then Some (Inr s') else continue_loop s')"

definition cmd_continue :: "bfdb_t \<Rightarrow> (undefined_behaviour + bfdb_t) option" where
  "cmd_continue s =
     (if running (runtime s) then continue_loop s else Some (Inr (say [NotBeingRun] s)))"

definition cmd_dataptr :: "bfdb_t \<Rightarrow> bfdb_t" where
  "cmd_dataptr s =
     (if running (runtime s) then dbg_print_dataptr s else say [NotBeingRun] s)"

definition cmd_print :: "numeric_arg option \<Rightarrow> bfdb_t \<Rightarrow> bfdb_t" where
  "cmd_print index s =
     (if running (runtime s) then
        (case index of
           Some str \<Rightarrow>
             (case to_int str False s of
                (Some i, s') \<Rightarrow> dbg_print i s'
              | (None, s') \<Rightarrow> s')
         | None \<Rightarrow> dbg_print (sint (ptr (runtime s))) s)
      else say [NotBeingRun] s)"

definition cmd_tape :: "bfdb_t \<Rightarrow> bfdb_t" where
  "cmd_tape s = (if running (runtime s) then dbg_print_tape s else say [NotBeingRun] s)"

text \<open>
  The table \<^verbatim>\<open>commands[]\<close> without \<^verbatim>\<open>help\<close> and \<^verbatim>\<open>quit\<close>, and the call
  \<^verbatim>\<open>command.handler(arg)\<close> of \<^verbatim>\<open>parse_command\<close>.
\<close>

datatype command =
    File "string option"
  | Run
  | Next "numeric_arg option"
  | Jump "numeric_arg option"
  | Continue
  | DataptrCmd
  | Print "numeric_arg option"
  | Tape

fun handler ::
  "(string \<Rightarrow> string option) \<Rightarrow> command \<Rightarrow> bfdb_t \<Rightarrow> (undefined_behaviour + bfdb_t) option" where
  "handler fopen (File arg) s = Some (Inr (cmd_file fopen arg s))"
| "handler fopen Run s = Some (Inr (cmd_run s))"
| "handler fopen (Next arg) s = Some (cmd_next arg s)"
| "handler fopen (Jump arg) s = Some (Inr (cmd_jump arg s))"
| "handler fopen Continue s = cmd_continue s"
| "handler fopen DataptrCmd s = Some (Inr (cmd_dataptr s))"
| "handler fopen (Print arg) s = Some (Inr (cmd_print arg s))"
| "handler fopen Tape s = Some (Inr (cmd_tape s))"

text \<open>
  The states of a session: those \<^verbatim>\<open>dbg_run\<close> produces, and those any command leads
  to from there when it returns.
\<close>

inductive reachable :: "(string \<Rightarrow> string option) \<Rightarrow> bfdb_t \<Rightarrow> bool"
  for fopen :: "string \<Rightarrow> string option" where
  reachable_run: "reachable fopen (dbg_run s)"
| reachable_command:
    "reachable fopen s \<Longrightarrow> handler fopen cmd s = Some (Inr s') \<Longrightarrow> reachable fopen s'"

subsection \<open>Notions used to state the properties\<close>

text \<open>
  The arrays of the C structs have a fixed number of elements; the lists that stand for
  them have that length.
\<close>

definition program_wf :: "program_t \<Rightarrow> bool" where
  "program_wf prog =
     (length (instructions prog) = PROGRAM_SIZE \<and> length (stack prog) = STACK_SIZE)"



text \<open>
  Whether the brackets of a source are balanced, read from left to right with \<open>d\<close>
  brackets pending: \<open>CloseUnmatched\<close> when a \<^verbatim>\<open>]\<close> is read while no \<^verbatim>\<open>[\<close> is
  pending, \<open>OpenUnmatched\<close> when a \<^verbatim>\<open>[\<close> is still pending at the end.
\<close>

datatype bracket_status = Balanced | CloseUnmatched | OpenUnmatched

fun brackets :: "nat \<Rightarrow> string \<Rightarrow> bracket_status" where
  "brackets d [] = (if d = 0 then Balanced else OpenUnmatched)"
| "brackets d (c # cs) =
     (if c = CHR ''['' then brackets (Suc d) cs
      else if c = CHR '']'' then (case d of 0 \<Rightarrow> CloseUnmatched | Suc d' \<Rightarrow> brackets d' cs)
      else brackets d cs)"

text \<open>
  \<open>exec_steps n s\<close> executes \<open>n\<close> instructions one after the other, whatever each call
  of \<^verbatim>\<open>dbg_interpret\<close> returns. \<open>stops_at T s\<close> says that, from \<open>s\<close>, the \<open>T\<close>-th
  instruction executed is the first one whose interpretation returns \<^verbatim>\<open>true\<close> (it
  halts or faults).
\<close>

fun exec_steps :: "nat \<Rightarrow> bfdb_t \<Rightarrow> undefined_behaviour + bfdb_t" where
  "exec_steps 0 s = Inr s"
| "exec_steps (Suc n) s =
     (case dbg_step s of Inl u \<Rightarrow> Inl u | Inr (ret, s') \<Rightarrow> exec_steps n s')"

fun stops_at :: "nat \<Rightarrow> bfdb_t \<Rightarrow> bool" where
  "stops_at 0 s = False"
| "stops_at (Suc n) s =
     (case dbg_step s of
        Inl u \<Rightarrow> False
      | Inr (ret, s') \<Rightarrow> if ret then n = 0 else stops_at n s')"

text \<open>The data pointer indexes a cell of the tape, which has \<^verbatim>\<open>DATA_SIZE\<close> cells.\<close>

definition data_pointer_ok :: "bfdb_t \<Rightarrow> bool" where
  "data_pointer_ok s =
     (unat (ptr (runtime s)) < DATA_SIZE \<and> length (data (runtime s)) = DATA_SIZE)"





section \<open>Properties\<close>

lemmas OP_defs =
  OP_END_def OP_INC_def OP_DEC_def OP_ADD_def OP_SUB_def OP_OUT_def OP_IN_def
  OP_JMP_def OP_RET_def

lemmas SIZE_defs = PROGRAM_SIZE_def STACK_SIZE_def DATA_SIZE_def

subsection \<open>Arithmetic of the data pointer\<close>

lemma unat_ptr_succ: "unat (p :: 32 word) < DATA_SIZE \<Longrightarrow> unat (p + 1) = unat p + 1"
  by (simp add: unat_word_ariths DATA_SIZE_def)

lemma unat_ptr_pred: "p \<noteq> 0 \<Longrightarrow> unat (p - 1 :: 32 word) = unat p - 1"
  by (simp add: unat_minus_one)

subsection \<open>Pointer bounds\<close>

text \<open>
  Claim C6. With the data pointer inside the tape (as it is in every session),
  \<^verbatim>\<open><\<close> faults with \<open>PointerUnderflow\<close> exactly when the
  data pointer is 0 and otherwise decrements it (from 1 to 0); \<^verbatim>\<open>>\<close> faults with
  \<open>PointerOverflow\<close> exactly when the data pointer is \<open>DATA_SIZE - 1\<close> and otherwise
  increments it. A fault leaves the data pointer where it is and prints the error with
  the instruction's 1-based index, the data pointer and the current cell.
\<close>

theorem pointer_bounds_exact:
  assumes "unat (ptr (runtime s)) < DATA_SIZE"
  shows "(operator i = OP_DEC \<longrightarrow>
            (if unat (ptr (runtime s)) = 0
             then dbg_interpret i s = (True, dbg_runtime_error PointerUnderflow s)
             else fst (dbg_interpret i s) = False
                \<and> unat (ptr (runtime (snd (dbg_interpret i s)))) = unat (ptr (runtime s)) - 1))
       \<and> (operator i = OP_INC \<longrightarrow>
            (if unat (ptr (runtime s)) = DATA_SIZE - 1
             then dbg_interpret i s = (True, dbg_runtime_error PointerOverflow s)
             else fst (dbg_interpret i s) = False
                \<and> unat (ptr (runtime (snd (dbg_interpret i s)))) = unat (ptr (runtime s)) + 1))
       \<and> msgs (dbg_runtime_error kind s) =
            msgs s @ [RuntimeError kind (uint (pc (runtime s)) + 1) (ptr (runtime s)) (cell s),
                      ExitedWithError]
       \<and> ptr (runtime (dbg_runtime_error kind s)) = ptr (runtime s)"
proof -
  have succ: "unat (ptr (runtime s) + 1) = unat (ptr (runtime s)) + 1"
    using assms by (rule unat_ptr_succ)
  show ?thesis
    using assms succ
    by (auto simp: dbg_interpret_def dbg_switch_def OP_defs set_ptr_def set_pc_def
        DATA_SIZE_def unat_eq_0 word_greater_zero_iff unat_ptr_pred
        dbg_runtime_error_def say_def cell_def)
qed

theorem pointer_bounds_exact_witness:
  "unat (ptr (runtime (dbg_run (bfdb_init [])))) < DATA_SIZE
   \<and> operator \<lparr>operator = OP_DEC, operand = 0\<rparr> = OP_DEC
   \<and> dbg_interpret \<lparr>operator = OP_DEC, operand = 0\<rparr> (dbg_run (bfdb_init []))
       = (True, dbg_runtime_error PointerUnderflow (dbg_run (bfdb_init [])))
   \<and> unat (ptr (runtime (set_ptr 65534 (dbg_run (bfdb_init []))))) < DATA_SIZE
   \<and> operator \<lparr>operator = OP_INC, operand = 0\<rparr> = OP_INC
   \<and> dbg_interpret \<lparr>operator = OP_INC, operand = 0\<rparr> (set_ptr 65534 (dbg_run (bfdb_init [])))
       = (True, dbg_runtime_error PointerOverflow (set_ptr 65534 (dbg_run (bfdb_init []))))
   \<and> unat (ptr (runtime (set_ptr 1 (dbg_run (bfdb_init []))))) < DATA_SIZE
   \<and> fst (dbg_interpret \<lparr>operator = OP_DEC, operand = 0\<rparr> (set_ptr 1 (dbg_run (bfdb_init [])))) = False
   \<and> unat (ptr (runtime (snd (dbg_interpret \<lparr>operator = OP_DEC, operand = 0\<rparr>
                                 (set_ptr 1 (dbg_run (bfdb_init []))))))) = 0"
proof -
  have a: "unat (ptr (runtime (dbg_run (bfdb_init [])))) < DATA_SIZE"
    by (simp add: dbg_run_def DATA_SIZE_def)
  have b: "unat (ptr (runtime (set_ptr 65534 (dbg_run (bfdb_init []))))) < DATA_SIZE"
    by (simp add: dbg_run_def set_ptr_def DATA_SIZE_def)
  have c: "unat (ptr (runtime (set_ptr 1 (dbg_run (bfdb_init []))))) < DATA_SIZE"
    by (simp add: dbg_run_def set_ptr_def DATA_SIZE_def)
  show ?thesis
    using a b c
      pointer_bounds_exact [OF a, of "\<lparr>operator = OP_DEC, operand = 0\<rparr>"]
      pointer_bounds_exact [OF b, of "\<lparr>operator = OP_INC, operand = 0\<rparr>"]
      pointer_bounds_exact [OF c, of "\<lparr>operator = OP_DEC, operand = 0\<rparr>"]
    by (simp add: dbg_run_def set_ptr_def DATA_SIZE_def)
qed

subsection \<open>The program counter\<close>

text \<open>
  Claim C5. \<^verbatim>\<open>dbg_interpret\<close> returns \<^verbatim>\<open>true\<close> exactly when the instruction halts
  (\<open>OP_END\<close>) or faults (a pointer move out of the tape). When it returns \<^verbatim>\<open>false\<close>
  the program counter has advanced by exactly one from where the instruction left it:
  from the operand for a jump that is taken, from the old program counter for every
  other instruction (the increment is that of an \<^verbatim>\<open>unsigned short\<close>). When it returns
  \<^verbatim>\<open>true\<close> the program counter is not advanced and the session is not running, so
  that \<^verbatim>\<open>next\<close> and \<^verbatim>\<open>continue\<close> only answer that the program is not being run;
  \<^verbatim>\<open>dbg_run\<close> makes the session running again.
\<close>

theorem program_counter_advance:
  assumes "dbg_interpret i s = (ret, s')"
  shows "ret = (operator i = OP_END
                \<or> (operator i = OP_INC \<and> \<not> unat (ptr (runtime s) + 1) < DATA_SIZE)
                \<or> (operator i = OP_DEC \<and> ptr (runtime s) = 0))
     \<and> (\<not> ret \<longrightarrow> pc (runtime s') =
           (if (operator i = OP_JMP \<and> cell s = 0) \<or> (operator i = OP_RET \<and> cell s \<noteq> 0)
            then operand i else pc (runtime s)) + 1)
     \<and> (ret \<longrightarrow> pc (runtime s') = pc (runtime s) \<and> \<not> running (runtime s')
           \<and> cmd_next arg s' = Inr (say [NotBeingRun] s')
           \<and> cmd_continue s' = Some (Inr (say [NotBeingRun] s')))
     \<and> running (runtime (dbg_run s'))"
  using assms
  by (auto simp: dbg_interpret_def dbg_switch_def OP_defs set_ptr_def set_pc_def
      set_cell_def say_def dbg_runtime_error_def cmd_next_def cmd_continue_def dbg_run_def
      word_greater_zero_iff split: if_splits list.splits)

theorem program_counter_advance_witness:
  "fst (dbg_interpret \<lparr>operator = OP_ADD, operand = 0\<rparr> (dbg_run (bfdb_init []))) = False
   \<and> pc (runtime (snd (dbg_interpret \<lparr>operator = OP_ADD, operand = 0\<rparr>
                          (dbg_run (bfdb_init []))))) = 1
   \<and> fst (dbg_interpret \<lparr>operator = OP_JMP, operand = 5\<rparr> (dbg_run (bfdb_init []))) = False
   \<and> pc (runtime (snd (dbg_interpret \<lparr>operator = OP_JMP, operand = 5\<rparr>
                          (dbg_run (bfdb_init []))))) = 6
   \<and> fst (dbg_interpret \<lparr>operator = OP_DEC, operand = 0\<rparr> (dbg_run (bfdb_init []))) = True
   \<and> pc (runtime (snd (dbg_interpret \<lparr>operator = OP_DEC, operand = 0\<rparr>
                          (dbg_run (bfdb_init []))))) = 0
   \<and> cmd_next None (snd (dbg_interpret \<lparr>operator = OP_DEC, operand = 0\<rparr>
                             (dbg_run (bfdb_init []))))
       = Inr (say [NotBeingRun] (snd (dbg_interpret \<lparr>operator = OP_DEC, operand = 0\<rparr>
                                        (dbg_run (bfdb_init [])))))"
  using
    program_counter_advance [OF prod.collapse [symmetric],
      of "\<lparr>operator = OP_ADD, operand = 0\<rparr>" "dbg_run (bfdb_init [])" None]
    program_counter_advance [OF prod.collapse [symmetric],
      of "\<lparr>operator = OP_JMP, operand = 5\<rparr>" "dbg_run (bfdb_init [])" None]
    program_counter_advance [OF prod.collapse [symmetric],
      of "\<lparr>operator = OP_DEC, operand = 0\<rparr>" "dbg_run (bfdb_init [])" None]
  by (simp add: OP_defs dbg_run_def bfdb_init_def runtime_init_def cell_def DATA_SIZE_def)

text \<open>The definitions that evaluate a concrete session.\<close>

lemmas eval_defs =
  compile_def compile_char_def set_operator_def set_operand_def program_init_def
  bfdb_init_def runtime_init_def dbg_load_def dbg_run_def say_def
  dbg_step_def fetch_def dbg_interpret_def dbg_switch_def dbg_runtime_error_def
  cell_def set_cell_def set_pc_def set_ptr_def

subsection \<open>Stepping\<close>

lemma dbg_next_loop_stops:
  "stops_at T s \<Longrightarrow>
     dbg_next_loop n s = map_sum id (Pair (T \<le> n)) (exec_steps (min n T) s)"
proof (induction n arbitrary: s T)
  case 0
  then show ?case by (cases T) simp_all
next
  case (Suc n)
  then obtain T' where T: "T = Suc T'" by (cases T) auto
  show ?case
  proof (cases "dbg_step s")
    case (Inl u)
    with Suc.prems T show ?thesis by simp
  next
    case (Inr r)
    obtain ret s' where r: "r = (ret, s')" by (cases r)
    show ?thesis
    proof (cases ret)
      case True
      with Suc.prems T Inr r show ?thesis by simp
    next
      case False
      with Suc.prems T Inr r have "stops_at T' s'" by simp
      from Suc.IH [OF this] T Inr r False show ?thesis by simp
    qed
  qed
qed

lemma dbg_next_loop_no_stop:
  "(\<forall>T \<le> n. \<not> stops_at T s) \<Longrightarrow>
     dbg_next_loop n s = map_sum id (Pair False) (exec_steps n s)"
proof (induction n arbitrary: s)
  case 0
  show ?case by simp
next
  case (Suc n)
  show ?case
  proof (cases "dbg_step s")
    case (Inl u)
    then show ?thesis by simp
  next
    case (Inr r)
    obtain ret s' where r: "r = (ret, s')" by (cases r)
    from Suc.prems have one: "\<not> stops_at (Suc 0) s" by (auto simp del: stops_at.simps)
    with Inr r have ret: "\<not> ret" by (auto split: if_splits)
    have "\<forall>T \<le> n. \<not> stops_at T s'"
    proof (intro allI impI)
      fix T assume "T \<le> n"
      with Suc.prems have "\<not> stops_at (Suc T) s" by (auto simp del: stops_at.simps)
      with Inr r ret show "\<not> stops_at T s'" by simp
    qed
    from Suc.IH [OF this] Inr r ret show ?thesis by simp
  qed
qed

text \<open>
  Claim C7. \<^verbatim>\<open>next 0\<close> executes nothing and leaves the state as it is. For
  \<open>count \<ge> 1\<close>, if the \<open>T\<close>-th instruction from the current state is the first to
  halt or fault, \<^verbatim>\<open>dbg_next(count)\<close> executes exactly \<open>min count T\<close> instructions (and
  returns whether it stopped early on that one); if none of the first \<open>count\<close>
  instructions halts or faults, it executes exactly \<open>count\<close>. A negative count changes
  nothing but the messages: \<^verbatim>\<open>to_int\<close> rejects it in \<^verbatim>\<open>cmd_next\<close>, and \<^verbatim>\<open>dbg_next\<close>
  itself returns before its loop. Reading an instruction outside the array is the same
  undefined behaviour on both sides of each equation.
\<close>

theorem next_step_count:
  "dbg_next 0 s = Inr (False, s)
   \<and> (1 \<le> count \<and> stops_at T s \<longrightarrow>
        dbg_next count s
          = map_sum id (Pair (T \<le> nat count)) (exec_steps (min (nat count) T) s))
   \<and> (1 \<le> count \<and> (\<forall>T \<le> nat count. \<not> stops_at T s) \<longrightarrow>
        dbg_next count s = map_sum id (Pair False) (exec_steps (nat count) s))
   \<and> (count < 0 \<longrightarrow> dbg_next count s = Inr (False, say [CountNegative count] s))
   \<and> (running (runtime s) \<longrightarrow>
        cmd_next (Some (Some count)) s
          = (if count < 0 then Inr (say [NegativeNotAllowed count] s)
             else map_sum id snd (dbg_next count s))
        \<and> cmd_next None s = map_sum id snd (dbg_next 1 s))"
  by (auto simp: dbg_next_def cmd_next_def to_int_def dbg_next_loop_stops
      dbg_next_loop_no_stop)


theorem next_step_count_witness:
  "stops_at 2 (dbg_run (dbg_load [''a.bf'' \<mapsto> ''+''] ''a.bf'' (bfdb_init [])))
   \<and> dbg_next 5 (dbg_run (dbg_load [''a.bf'' \<mapsto> ''+''] ''a.bf'' (bfdb_init [])))
       = map_sum id (Pair True)
           (exec_steps 2 (dbg_run (dbg_load [''a.bf'' \<mapsto> ''+''] ''a.bf'' (bfdb_init []))))
   \<and> dbg_next 1 (dbg_run (dbg_load [''a.bf'' \<mapsto> ''+''] ''a.bf'' (bfdb_init [])))
       = map_sum id (Pair False)
           (exec_steps 1 (dbg_run (dbg_load [''a.bf'' \<mapsto> ''+''] ''a.bf'' (bfdb_init []))))
   \<and> running (runtime (dbg_run (dbg_load [''a.bf'' \<mapsto> ''+''] ''a.bf'' (bfdb_init []))))
   \<and> cmd_next (Some (Some (- 3)))
         (dbg_run (dbg_load [''a.bf'' \<mapsto> ''+''] ''a.bf'' (bfdb_init [])))
       = Inr (say [NegativeNotAllowed (- 3)]
               (dbg_run (dbg_load [''a.bf'' \<mapsto> ''+''] ''a.bf'' (bfdb_init []))))"
proof -
  define s0 where "s0 = dbg_run (dbg_load [''a.bf'' \<mapsto> ''+''] ''a.bf'' (bfdb_init []))"
  have stop: "stops_at (Suc (Suc 0)) s0"
    by (simp add: s0_def eval_defs SIZE_defs OP_defs)
  have nostop: "\<forall>T \<le> nat 1. \<not> stops_at T s0"
    by (simp add: le_Suc_eq s0_def eval_defs SIZE_defs OP_defs)
  have run: "running (runtime s0)"
    by (simp add: s0_def dbg_run_def)
  show ?thesis
    using stop nostop run next_step_count [of s0 5 2] next_step_count [of s0 1 0]
      next_step_count [of s0 "- 3" 0]
    by (simp add: s0_def [symmetric] numeral_2_eq_2)
qed

subsection \<open>Jumping\<close>

lemma dbg_next_one: "dbg_next 1 s = dbg_step s"
  by (auto simp: dbg_next_def split: sum.splits)

text \<open>
  Claim C8. With \<open>1 \<le> i \<le> instr_count\<close>, \<^verbatim>\<open>dbg_jump\<close> writes \<open>i - 1\<close> to the program
  counter and nothing else: no message is printed, and the tape, the data pointer, the
  program, the flags and the streams are the same. The next \<^verbatim>\<open>dbg_next(1)\<close> then
  interprets the instruction stored at index \<open>i - 1\<close>, the \<open>i\<close>-th of the program.
  An index out of range changes nothing but the messages, where the error is reported;
  so does a negative argument, which \<^verbatim>\<open>to_int\<close> rejects in \<^verbatim>\<open>cmd_jump\<close>. The
  instruction count of a compiled program is at most \<open>PROGRAM_SIZE\<close>.
\<close>

theorem jump_is_register_write:
  assumes "uint (instr_count (program s)) \<le> int PROGRAM_SIZE"
  shows "(1 \<le> i \<and> i \<le> uint (instr_count (program s)) \<longrightarrow>
            dbg_jump i s = s\<lparr>runtime := (runtime s)\<lparr>pc := word_of_int (i - 1)\<rparr>\<rparr>
          \<and> uint (pc (runtime (dbg_jump i s))) = i - 1
          \<and> dbg_next 1 (dbg_jump i s)
              = Inr (dbg_interpret (instructions (program s) ! nat (i - 1)) (dbg_jump i s)))
       \<and> (\<not> (1 \<le> i \<and> i \<le> uint (instr_count (program s))) \<longrightarrow>
            dbg_jump i s = s\<lparr>msgs := msgs s @ [JumpNotInRange i (uint (instr_count (program s)))]\<rparr>)
       \<and> (running (runtime s) \<longrightarrow>
            cmd_jump (Some (Some i)) s
              = (if i < 0 then s\<lparr>msgs := msgs s @ [NegativeNotAllowed i]\<rparr> else dbg_jump i s))"
proof -
  have pc: "uint (word_of_int (i - 1) :: 16 word) = i - 1"
    if "1 \<le> i" "i \<le> uint (instr_count (program s))"
  proof -
    have "uint (instr_count (program s)) < 2 ^ 16"
      using uint_bounded [of "instr_count (program s)"] by simp
    with that have "0 \<le> i - 1" "i - 1 < 2 ^ LENGTH(16)" by simp_all
    then show ?thesis by (rule word_of_int_inverse [OF refl])
  qed
  have un: "unat (word_of_int (i - 1) :: 16 word) = nat (i - 1)"
    if "1 \<le> i" "i \<le> uint (instr_count (program s))"
    using pc [OF that] by (simp add: unat_eq_nat_uint)
  have lt: "nat (i - 1) < PROGRAM_SIZE"
    if "1 \<le> i" "i \<le> uint (instr_count (program s))"
    using that assms by simp
  show ?thesis
    using pc un lt
    by (auto simp: dbg_jump_def set_pc_def say_def cmd_jump_def to_int_def
        dbg_next_one dbg_step_def fetch_def)
qed


theorem jump_is_register_write_witness:
  "uint (instr_count (program (dbg_run (dbg_load [''a.bf'' \<mapsto> ''+-''] ''a.bf'' (bfdb_init [])))))
     \<le> int PROGRAM_SIZE
   \<and> running (runtime (dbg_run (dbg_load [''a.bf'' \<mapsto> ''+-''] ''a.bf'' (bfdb_init []))))
   \<and> uint (pc (runtime (dbg_jump 2
        (dbg_run (dbg_load [''a.bf'' \<mapsto> ''+-''] ''a.bf'' (bfdb_init [])))))) = 1
   \<and> dbg_next 1 (dbg_jump 2 (dbg_run (dbg_load [''a.bf'' \<mapsto> ''+-''] ''a.bf'' (bfdb_init []))))
       = Inr (dbg_interpret \<lparr>operator = OP_SUB, operand = 0\<rparr>
               (dbg_jump 2 (dbg_run (dbg_load [''a.bf'' \<mapsto> ''+-''] ''a.bf'' (bfdb_init [])))))
   \<and> dbg_jump 4 (dbg_run (dbg_load [''a.bf'' \<mapsto> ''+-''] ''a.bf'' (bfdb_init [])))
       = say [JumpNotInRange 4 3]
           (dbg_run (dbg_load [''a.bf'' \<mapsto> ''+-''] ''a.bf'' (bfdb_init [])))
   \<and> cmd_jump (Some (Some (- 1)))
         (dbg_run (dbg_load [''a.bf'' \<mapsto> ''+-''] ''a.bf'' (bfdb_init [])))
       = say [NegativeNotAllowed (- 1)]
           (dbg_run (dbg_load [''a.bf'' \<mapsto> ''+-''] ''a.bf'' (bfdb_init [])))"
proof -
  define s0 where "s0 = dbg_run (dbg_load [''a.bf'' \<mapsto> ''+-''] ''a.bf'' (bfdb_init []))"
  have count: "instr_count (program s0) = 3"
    by (simp add: s0_def eval_defs SIZE_defs)
  have bound: "uint (instr_count (program s0)) \<le> int PROGRAM_SIZE"
    by (simp add: count PROGRAM_SIZE_def)
  have second: "instructions (program s0) ! nat (2 - 1) = \<lparr>operator = OP_SUB, operand = 0\<rparr>"
    by (simp add: s0_def eval_defs SIZE_defs)
  have run: "running (runtime s0)"
    by (simp add: s0_def dbg_run_def)
  show ?thesis
    using bound run second count
      jump_is_register_write [OF bound, of 2]
      jump_is_register_write [OF bound, of 4]
      jump_is_register_write [OF bound, of "- 1"]
    by (auto simp: s0_def [symmetric] say_def)
qed

subsection \<open>The data pointer stays inside the tape\<close>

lemma dbg_interpret_data_pointer_ok:
  "data_pointer_ok s \<Longrightarrow> data_pointer_ok (snd (dbg_interpret i s))"
  by (auto simp: data_pointer_ok_def dbg_interpret_def dbg_switch_def set_ptr_def set_pc_def
      set_cell_def say_def dbg_runtime_error_def unat_ptr_succ unat_ptr_pred
      word_greater_zero_iff split: list.splits)

lemma dbg_step_data_pointer_ok:
  assumes "data_pointer_ok s" and "dbg_step s = Inr (ret, s')"
  shows "data_pointer_ok s'"
proof -
  from assms(2) obtain i where "dbg_interpret i s = (ret, s')"
    by (auto simp: dbg_step_def split: sum.splits)
  then have "s' = snd (dbg_interpret i s)" by simp
  with assms(1) show ?thesis by (simp add: dbg_interpret_data_pointer_ok)
qed

lemma dbg_next_loop_data_pointer_ok:
  "data_pointer_ok s \<Longrightarrow> dbg_next_loop n s = Inr (ret, s') \<Longrightarrow> data_pointer_ok s'"
proof (induction n arbitrary: s)
  case 0
  then show ?case by simp
next
  case (Suc n)
  then show ?case
    by (auto split: sum.splits if_splits dest: dbg_step_data_pointer_ok)
qed

lemma say_data_pointer_ok [simp]: "data_pointer_ok (say ms s) = data_pointer_ok s"
  by (simp add: data_pointer_ok_def say_def)

lemma dbg_next_data_pointer_ok:
  "data_pointer_ok s \<Longrightarrow> dbg_next count s = Inr (ret, s') \<Longrightarrow> data_pointer_ok s'"
  by (auto simp: dbg_next_def split: if_splits dest: dbg_next_loop_data_pointer_ok)

lemma continue_loop_data_pointer_ok:
  "continue_loop s = Some y \<Longrightarrow> data_pointer_ok s \<Longrightarrow> y = Inr s' \<Longrightarrow> data_pointer_ok s'"
proof (induction s y rule: continue_loop.raw_induct [rotated 1, consumes 1, case_names step])
  case (step loop t z)
  show ?case
  proof (cases "dbg_next 1 t")
    case (Inl u)
    with step show ?thesis by simp
  next
    case (Inr r)
    obtain ret t1 where r: "r = (ret, t1)" by (cases r)
    from Inr r have "dbg_next 1 t = Inr (ret, t1)" by simp
    with step.prems(1) have ok: "data_pointer_ok t1"
      by (rule dbg_next_data_pointer_ok)
    show ?thesis
    proof (cases ret)
      case True
      with step Inr r ok show ?thesis by simp
    next
      case False
      with step.hyps Inr r have "loop t1 = Some z" by simp
      from step.IH [OF this ok step.prems(2)] show ?thesis .
    qed
  qed
qed

lemma dbg_load_data_pointer_ok:
  "data_pointer_ok s \<Longrightarrow> data_pointer_ok (dbg_load fopen name s)"
  by (auto simp: dbg_load_def data_pointer_ok_def say_def Let_def split: option.splits sum.splits)

lemma to_int_data_pointer_ok:
  "data_pointer_ok s \<Longrightarrow> to_int str neg s = (r, s') \<Longrightarrow> data_pointer_ok s'"
  by (auto simp: to_int_def split: option.splits if_splits)

lemma dbg_jump_data_pointer_ok:
  "data_pointer_ok s \<Longrightarrow> data_pointer_ok (dbg_jump i s)"
  by (auto simp: dbg_jump_def set_pc_def data_pointer_ok_def say_def)

lemma dbg_print_data_pointer_ok:
  "data_pointer_ok s \<Longrightarrow> data_pointer_ok (dbg_print i s)"
  by (auto simp: dbg_print_def)

lemma dbg_print_tape_data_pointer_ok:
  "data_pointer_ok (dbg_print_tape s) = data_pointer_ok s"
  unfolding dbg_print_tape_def by (rule say_data_pointer_ok)

lemma handler_data_pointer_ok:
  assumes "data_pointer_ok s" and "handler fopen cmd s = Some (Inr s')"
  shows "data_pointer_ok s'"
proof (cases cmd)
  case (File arg)
  with assms show ?thesis
    by (auto simp: cmd_file_def dbg_load_data_pointer_ok split: option.splits)
next
  case Run
  with assms show ?thesis
    by (auto simp: cmd_run_def dbg_run_def data_pointer_ok_def say_def DATA_SIZE_def
        split: if_splits)
next
  case (Next arg)
  with assms show ?thesis
    by (auto simp: cmd_next_def map_sum_def
        split: if_splits option.splits prod.splits sum.splits
        dest!: to_int_data_pointer_ok [rotated] dest: dbg_next_data_pointer_ok)
next
  case (Jump arg)
  with assms show ?thesis
    by (auto simp: cmd_jump_def dbg_jump_data_pointer_ok
        split: if_splits option.splits prod.splits
        dest: to_int_data_pointer_ok)
next
  case Continue
  with assms show ?thesis
    by (auto simp: cmd_continue_def split: if_splits
        dest: continue_loop_data_pointer_ok)
next
  case DataptrCmd
  with assms show ?thesis
    by (auto simp: cmd_dataptr_def dbg_print_dataptr_def split: if_splits)
next
  case (Print arg)
  with assms show ?thesis
    by (auto simp: cmd_print_def dbg_print_data_pointer_ok
        split: if_splits option.splits prod.splits
        dest: to_int_data_pointer_ok)
next
  case Tape
  with assms show ?thesis
    by (auto simp: cmd_tape_def dbg_print_tape_data_pointer_ok split: if_splits)
qed

text \<open>
  Claim C10. In every state of a session (after \<^verbatim>\<open>dbg_run\<close>, and then after any
  sequence of commands that return) the data pointer is below \<open>DATA_SIZE\<close>, the
  number of cells of the tape, so \<^verbatim>\<open>data[ptr]\<close> is a cell of the tape.
\<close>

theorem data_pointer_in_bounds:
  assumes "reachable fopen s"
  shows "unat (ptr (runtime s)) < DATA_SIZE \<and> length (data (runtime s)) = DATA_SIZE"
proof -
  from assms have "data_pointer_ok s"
  proof (induction rule: reachable.induct)
    case (reachable_run s)
    show ?case by (simp add: data_pointer_ok_def dbg_run_def DATA_SIZE_def)
  next
    case (reachable_command s cmd s')
    then show ?case by (auto dest: handler_data_pointer_ok)
  qed
  then show ?thesis by (simp add: data_pointer_ok_def)
qed


theorem data_pointer_in_bounds_witness:
  "reachable [''a.bf'' \<mapsto> ''>''] (dbg_run (dbg_load [''a.bf'' \<mapsto> ''>''] ''a.bf'' (bfdb_init [])))
   \<and> handler [''a.bf'' \<mapsto> ''>''] (Next None)
         (dbg_run (dbg_load [''a.bf'' \<mapsto> ''>''] ''a.bf'' (bfdb_init [])))
       = Some (Inr (set_pc 1 (set_ptr 1
           (dbg_run (dbg_load [''a.bf'' \<mapsto> ''>''] ''a.bf'' (bfdb_init []))))))
   \<and> unat (ptr (runtime (set_pc 1 (set_ptr 1
           (dbg_run (dbg_load [''a.bf'' \<mapsto> ''>''] ''a.bf'' (bfdb_init []))))))) < DATA_SIZE
   \<and> length (data (runtime (set_pc 1 (set_ptr 1
           (dbg_run (dbg_load [''a.bf'' \<mapsto> ''>''] ''a.bf'' (bfdb_init []))))))) = DATA_SIZE"
proof -
  define s0 where "s0 = dbg_run (dbg_load [''a.bf'' \<mapsto> ''>''] ''a.bf'' (bfdb_init []))"
  have r0: "reachable [''a.bf'' \<mapsto> ''>''] s0"
    unfolding s0_def by (rule reachable_run)
  have step: "handler [''a.bf'' \<mapsto> ''>''] (Next None) s0 = Some (Inr (set_pc 1 (set_ptr 1 s0)))"
    by (simp add: s0_def cmd_next_def dbg_next_one eval_defs SIZE_defs OP_defs)
  have r1: "reachable [''a.bf'' \<mapsto> ''>''] (set_pc 1 (set_ptr 1 s0))"
    using r0 step by (rule reachable_command)
  show ?thesis
    using r0 step data_pointer_in_bounds [OF r1]
    by (simp add: s0_def [symmetric])
qed

subsection \<open>Loading\<close>

text \<open>
  Claim C4, as amended. A load that fails leaves the session not running and does not
  touch the tape, the data pointer, the program counter or the streams. When the file
  cannot be opened, nothing else changes but the message printed: \<^verbatim>\<open>loaded\<close> and the
  program stay as they were, so a program loaded before stays loaded. When the
  compilation fails, \<^verbatim>\<open>loaded\<close> is false and the program is the one the failed
  compilation leaves behind, since \<^verbatim>\<open>compile\<close> writes into the global program.
\<close>

theorem failed_load_effect:
  "(fopen name = None \<longrightarrow>
      dbg_load fopen name s
        = s\<lparr>runtime := (runtime s)\<lparr>running := False\<rparr>,
            msgs := msgs s @ [NoSuchFile name]\<rparr>)
   \<and> (fopen name = Some fp \<and> compile fp (program s) = Inl (e, prog') \<longrightarrow>
      dbg_load fopen name s
        = s\<lparr>runtime := (runtime s)\<lparr>running := False\<rparr>,
            program := prog',
            loaded := False,
            msgs := msgs s @ [Reading name] @ compile_messages e @ [CouldNotReadFrom name]\<rparr>)"
  by (simp add: dbg_load_def say_def)

theorem failed_load_effect_witness:
  "[''a.bf'' \<mapsto> '']''] ''b.bf'' = None
   \<and> dbg_load [''a.bf'' \<mapsto> '']''] ''b.bf'' (bfdb_init [])
       = (bfdb_init [])\<lparr>runtime := (runtime (bfdb_init []))\<lparr>running := False\<rparr>,
                         msgs := msgs (bfdb_init []) @ [NoSuchFile ''b.bf'']\<rparr>
   \<and> [''a.bf'' \<mapsto> '']''] ''a.bf'' = Some '']''
   \<and> compile '']'' (program (bfdb_init [])) = Inl (UnmatchedCloseBracket 1 1, program_init)
   \<and> dbg_load [''a.bf'' \<mapsto> '']''] ''a.bf'' (bfdb_init [])
       = (bfdb_init [])\<lparr>runtime := (runtime (bfdb_init []))\<lparr>running := False\<rparr>,
                         program := program_init,
                         loaded := False,
                         msgs := msgs (bfdb_init []) @ [Reading ''a.bf'']
                                 @ compile_messages (UnmatchedCloseBracket 1 1)
                                 @ [CouldNotReadFrom ''a.bf'']\<rparr>"
proof -
  have c: "compile '']'' (program (bfdb_init [])) = Inl (UnmatchedCloseBracket 1 1, program_init)"
    by (simp add: compile_def compile_char_def bfdb_init_def program_init_def SIZE_defs)
  show ?thesis
    using c
      failed_load_effect [of "[''a.bf'' \<mapsto> '']'']" "''b.bf''" "bfdb_init []"]
      failed_load_effect [of "[''a.bf'' \<mapsto> '']'']" "''a.bf''" "bfdb_init []" "'']''"
        "UnmatchedCloseBracket 1 1" program_init]
    by simp
qed

text \<open>
  The claim as stated fails in two ways. After \<^verbatim>\<open>+\<close> has been loaded, a load of a
  file that does not exist leaves the session loaded; and a load of \<^verbatim>\<open>-]\<close>, which
  does not compile, has already overwritten the first instruction of the program.
\<close>

theorem failed_load_counterexample:
  "[''a.bf'' \<mapsto> ''+'', ''b.bf'' \<mapsto> ''-]''] ''c.bf'' = None
   \<and> loaded (dbg_load [''a.bf'' \<mapsto> ''+'', ''b.bf'' \<mapsto> ''-]''] ''c.bf''
               (dbg_load [''a.bf'' \<mapsto> ''+'', ''b.bf'' \<mapsto> ''-]''] ''a.bf'' (bfdb_init [])))
   \<and> isl (compile ''-]''
             (program (dbg_load [''a.bf'' \<mapsto> ''+'', ''b.bf'' \<mapsto> ''-]''] ''a.bf'' (bfdb_init []))))
   \<and> operator (instructions (program
         (dbg_load [''a.bf'' \<mapsto> ''+'', ''b.bf'' \<mapsto> ''-]''] ''a.bf'' (bfdb_init []))) ! 0) = OP_ADD
   \<and> operator (instructions (program
         (dbg_load [''a.bf'' \<mapsto> ''+'', ''b.bf'' \<mapsto> ''-]''] ''b.bf''
           (dbg_load [''a.bf'' \<mapsto> ''+'', ''b.bf'' \<mapsto> ''-]''] ''a.bf'' (bfdb_init [])))) ! 0) = OP_SUB"
  by (simp add: eval_defs SIZE_defs)

subsection \<open>What compilation stores for a loop\<close>

text \<open>
  Claim C1 does not hold of the code. For \<^verbatim>\<open>]\<close> the compiler executes
  \<^verbatim>\<open>prog->instructions[jmp_pc].operator = pc\<close>: it writes the index of the \<^verbatim>\<open>]\<close>
  into the operator of the slot of the matching \<^verbatim>\<open>[\<close>, not into its operand. The
  source \<^verbatim>\<open>+[-]\<close> compiles, from the initial program, to five instructions of which
  the second, the slot of \<^verbatim>\<open>[\<close>, has operator 3 (which is \<open>OP_ADD\<close>) and operand 0,
  where the claim has \<open>OP_JMP\<close> and 3; the fourth, the slot of \<^verbatim>\<open>]\<close>, is
  \<open>OP_RET\<close> with operand 1.
\<close>

theorem compile_loop_slots:
  "\<not> isl (compile ''+[-]'' program_init)
   \<and> instr_count (projr (compile ''+[-]'' program_init)) = 5
   \<and> instructions (projr (compile ''+[-]'' program_init)) ! 1 = \<lparr>operator = OP_ADD, operand = 0\<rparr>
   \<and> instructions (projr (compile ''+[-]'' program_init)) ! 3 = \<lparr>operator = OP_RET, operand = 1\<rparr>
   \<and> operator (instructions (projr (compile ''+[-]'' program_init)) ! 1) \<noteq> OP_JMP
   \<and> operand (instructions (projr (compile ''+[-]'' program_init)) ! 1) \<noteq> 3"
  by (simp add: compile_def compile_char_def set_operator_def set_operand_def
      program_init_def SIZE_defs OP_defs)

subsection \<open>What a failed compilation reports\<close>

text \<open>
  Claim C9 does not hold of the code. An unmatched \<^verbatim>\<open>]\<close> is reported by
  \<^verbatim>\<open>compile_error\<close> with its line and column (here line 2, column 1), but the
  \<^verbatim>\<open>return false\<close> for a \<^verbatim>\<open>[\<close> that is still pending at the end of the file is not
  preceded by any call of \<^verbatim>\<open>compile_error\<close>: loading the one-character source
  \<^verbatim>\<open>[\<close> prints no line and no column, only that the file could not be read.
\<close>

theorem unmatched_open_not_reported:
  "isl (compile ''['' program_init)
   \<and> fst (projl (compile ''['' program_init)) = UnmatchedOpenBracket
   \<and> msgs (dbg_load [''a.bf'' \<mapsto> ''[''] ''a.bf'' (bfdb_init []))
       = [Reading ''a.bf'', CouldNotReadFrom ''a.bf'']
   \<and> fst (projl (compile [CHR ''+'', CHR 0x0A, CHR '']''] program_init)) = UnmatchedCloseBracket 2 1
   \<and> msgs (dbg_load [''b.bf'' \<mapsto> [CHR ''+'', CHR 0x0A, CHR '']'']] ''b.bf'' (bfdb_init []))
       = [Reading ''b.bf'', CompilationError (UnmatchedCloseBracket 2 1), CouldNotReadFrom ''b.bf'']"
  by (simp add: eval_defs SIZE_defs)

subsection \<open>The pending-bracket stack follows the brackets of the source\<close>

lemma esp_set_operator [simp]: "esp (set_operator i v p) = esp p"
  by (simp add: set_operator_def)

lemma esp_set_operand [simp]: "esp (set_operand i v p) = esp p"
  by (simp add: set_operand_def)










lemma brackets_other:
  "c \<noteq> CHR ''['' \<Longrightarrow> c \<noteq> CHR '']'' \<Longrightarrow> brackets d (c # fp) = brackets d fp"
  by simp



lemma compile_loop_fail:
  "unat n < PROGRAM_SIZE \<Longrightarrow> compile_char c p l k n = Inl e \<Longrightarrow>
     compile_loop (c # fp) p l k n = Inl e"
  by simp


subsection \<open>Unbalanced sources are rejected\<close>




text \<open>
  The stack pointer is 0 in a fresh process and after every compilation that succeeded.
\<close>

lemma esp_after_compile:
  "esp (program (bfdb_init inp)) = 0" "compile fp p = Inr q \<Longrightarrow> esp q = 0"
  by (auto simp: bfdb_init_def program_init_def compile_def split: sum.splits if_splits)







subsection \<open>What a compiled program owes to the source alone\<close>

lemma instructions_set_operator [simp]:
  "instructions (set_operator i v p) = (instructions p)[i := (instructions p ! i)\<lparr>operator := v\<rparr>]"
  by (simp add: set_operator_def)

lemma instructions_set_operand [simp]:
  "instructions (set_operand i v p) = (instructions p)[i := (instructions p ! i)\<lparr>operand := v\<rparr>]"
  by (simp add: set_operand_def)

lemma stack_set_operator [simp]: "stack (set_operator i v p) = stack p"
  by (simp add: set_operator_def)

lemma stack_set_operand [simp]: "stack (set_operand i v p) = stack p"
  by (simp add: set_operand_def)

lemma program_wf_set_operator [simp]: "program_wf (set_operator i v p) = program_wf p"
  by (simp add: program_wf_def)

lemma program_wf_set_operand [simp]: "program_wf (set_operand i v p) = program_wf p"
  by (simp add: program_wf_def)











end
